theory Spec2Isabelle
  imports Main "HOL-Library.Word"
begin

section \<open>Strings\<close>

text \<open>
  A JavaScript string is a sequence of 16-bit code units. Text that appears literally in
  \<^verbatim>\<open>app.js\<close> is written as an Isabelle string and embedded with \<open>str\<close>.
\<close>

type_synonym jsstring = "16 word list"

definition str :: "string \<Rightarrow> jsstring" where
  "str cs = map (\<lambda>c. of_nat (of_char c)) cs"

section \<open>The built-ins \<^verbatim>\<open>encodeURIComponent\<close> and \<^verbatim>\<open>decodeURIComponent\<close>\<close>

text \<open>
  Both are functions of the language, not of the repository; they follow the abstract
  operations Encode and Decode of ECMA-262 (section "URI Handling Functions"). The work is
  done on the numeric values of the code units; \<open>None\<close> stands for the URIError
  exception.
\<close>

definition unescaped :: "nat \<Rightarrow> bool" where
  \<comment> \<open>letters, digits and \<^verbatim>\<open>- _ . ! ~ * ' ( )\<close>\<close>
  "unescaped c \<longleftrightarrow>
     (65 \<le> c \<and> c \<le> 90) \<or> (97 \<le> c \<and> c \<le> 122) \<or> (48 \<le> c \<and> c \<le> 57) \<or>
     c \<in> {45, 95, 46, 33, 126, 42, 39, 40, 41}"

definition is_lead :: "nat \<Rightarrow> bool" where
  "is_lead c \<longleftrightarrow> 0xD800 \<le> c \<and> c \<le> 0xDBFF"

definition is_trail :: "nat \<Rightarrow> bool" where
  "is_trail c \<longleftrightarrow> 0xDC00 \<le> c \<and> c \<le> 0xDFFF"

definition pair_to_code_point :: "nat \<Rightarrow> nat \<Rightarrow> nat" where
  "pair_to_code_point lead trail = (lead - 0xD800) * 0x400 + (trail - 0xDC00) + 0x10000"

definition utf8_octets :: "nat \<Rightarrow> nat list" where
  "utf8_octets cp =
     (if cp < 0x80 then [cp]
      else if cp < 0x800 then [0xC0 + cp div 64, 0x80 + cp mod 64]
      else if cp < 0x10000 then [0xE0 + cp div 4096, 0x80 + cp div 64 mod 64, 0x80 + cp mod 64]
      else [0xF0 + cp div 262144, 0x80 + cp div 4096 mod 64, 0x80 + cp div 64 mod 64,
            0x80 + cp mod 64])"

definition hex_digit :: "nat \<Rightarrow> nat" where
  \<comment> \<open>the digits 0-9 and the upper-case letters A-F\<close>
  "hex_digit d = (if d < 10 then 48 + d else 55 + d)"

definition escape :: "nat \<Rightarrow> nat list" where
  \<comment> \<open>a percent sign and two hexadecimal digits\<close>
  "escape octet = [37, hex_digit (octet div 16), hex_digit (octet mod 16)]"

fun Encode :: "nat list \<Rightarrow> nat list option" where
  "Encode [] = Some []"
| "Encode (c # cs) =
     (if unescaped c then map_option ((#) c) (Encode cs)
      else if is_trail c then None
      else if is_lead c then
        (case cs of
           [] \<Rightarrow> None
         | d # ds \<Rightarrow>
             if is_trail d
             then map_option ((@) (concat (map escape (utf8_octets (pair_to_code_point c d)))))
                    (Encode ds)
             else None)
      else map_option ((@) (concat (map escape (utf8_octets c)))) (Encode cs))"

definition hex_value :: "nat \<Rightarrow> nat option" where
  "hex_value c =
     (if 48 \<le> c \<and> c \<le> 57 then Some (c - 48)
      else if 65 \<le> c \<and> c \<le> 70 then Some (c - 55)
      else if 97 \<le> c \<and> c \<le> 102 then Some (c - 87)
      else None)"

fun ParseHexOctet :: "nat list \<Rightarrow> nat option" where
  "ParseHexOctet (h # l # _) =
     (case (hex_value h, hex_value l) of
        (Some a, Some b) \<Rightarrow> Some (16 * a + b)
      | _ \<Rightarrow> None)"
| "ParseHexOctet _ = None"

fun continuation_octets :: "nat \<Rightarrow> nat list \<Rightarrow> nat list option" where
  "continuation_octets 0 cs = Some []"
| "continuation_octets (Suc j) cs =
     (case cs of
        [] \<Rightarrow> None
      | p # rest \<Rightarrow>
          if p \<noteq> 37 then None
          else (case ParseHexOctet rest of
                  None \<Rightarrow> None
                | Some b \<Rightarrow> map_option ((#) b) (continuation_octets j (drop 3 cs))))"

definition leading_ones :: "nat \<Rightarrow> nat" where
  \<comment> \<open>the number of leading 1 bits of an octet (5 stands for "more than four")\<close>
  "leading_ones b =
     (if b < 0x80 then 0 else if b < 0xC0 then 1 else if b < 0xE0 then 2
      else if b < 0xF0 then 3 else if b < 0xF8 then 4 else 5)"

definition is_continuation :: "nat \<Rightarrow> bool" where
  "is_continuation b \<longleftrightarrow> 0x80 \<le> b \<and> b \<le> 0xBF"

fun utf8_code_point :: "nat list \<Rightarrow> nat option" where
  \<comment> \<open>the code point of a valid UTF-8 sequence of two to four octets: continuation
      octets of the form 10xxxxxx, no overlong form, no surrogate, at most U+10FFFF\<close>
  "utf8_code_point [a, b] =
     (let cp = (a - 0xC0) * 64 + (b - 0x80)
      in if is_continuation b \<and> 0x80 \<le> cp then Some cp else None)"
| "utf8_code_point [a, b, c] =
     (let cp = (a - 0xE0) * 4096 + (b - 0x80) * 64 + (c - 0x80)
      in if is_continuation b \<and> is_continuation c \<and> 0x800 \<le> cp \<and>
            \<not> (0xD800 \<le> cp \<and> cp \<le> 0xDFFF)
         then Some cp else None)"
| "utf8_code_point [a, b, c, d] =
     (let cp = (a - 0xF0) * 262144 + (b - 0x80) * 4096 + (c - 0x80) * 64 + (d - 0x80)
      in if is_continuation b \<and> is_continuation c \<and> is_continuation d \<and>
            0x10000 \<le> cp \<and> cp \<le> 0x10FFFF
         then Some cp else None)"
| "utf8_code_point _ = None"

definition UTF16EncodeCodePoint :: "nat \<Rightarrow> nat list" where
  "UTF16EncodeCodePoint cp =
     (if cp \<le> 0xFFFF then [cp]
      else [(cp - 0x10000) div 0x400 + 0xD800, (cp - 0x10000) mod 0x400 + 0xDC00])"

function Decode :: "nat list \<Rightarrow> nat list option" where
  "Decode [] = Some []"
| "Decode (c # cs) =
     (if c \<noteq> 37 then map_option ((#) c) (Decode cs)
      else
        (case ParseHexOctet cs of
           None \<Rightarrow> None
         | Some b \<Rightarrow>
             let n = leading_ones b in
             if n = 0 then map_option ((#) b) (Decode (drop 2 cs))
             else if n = 1 \<or> n > 4 then None
             else
               (case continuation_octets (n - 1) (drop 2 cs) of
                  None \<Rightarrow> None
                | Some octets \<Rightarrow>
                    (case utf8_code_point (b # octets) of
                       None \<Rightarrow> None
                     | Some v \<Rightarrow>
                         map_option ((@) (UTF16EncodeCodePoint v))
                           (Decode (drop (3 * (n - 1)) (drop 2 cs)))))))"
  by pat_completeness auto
termination
  by (relation "measure length") simp_all

definition encodeURIComponent :: "jsstring \<Rightarrow> jsstring option" where
  "encodeURIComponent s = map_option (map of_nat) (Encode (map unat s))"

definition decodeURIComponent :: "jsstring \<Rightarrow> jsstring option" where
  "decodeURIComponent s = map_option (map of_nat) (Decode (map unat s))"

fun well_formed :: "nat list \<Rightarrow> bool" where
  \<comment> \<open>no surrogate code unit outside a lead-trail pair\<close>
  "well_formed [] = True"
| "well_formed (c # cs) =
     (if is_lead c then (case cs of [] \<Rightarrow> False | d # ds \<Rightarrow> is_trail d \<and> well_formed ds)
      else \<not> is_trail c \<and> well_formed cs)"

definition well_formed_string :: "jsstring \<Rightarrow> bool" where
  "well_formed_string s = well_formed (map unat s)"


text \<open>Decimal digits, with a minus sign for a negative integer.\<close>

fun digits :: "nat \<Rightarrow> string" where
  "digits n = (if n < 10 then [char_of (48 + n)] else digits (n div 10) @ [char_of (48 + n mod 10)])"

definition decimal :: "int \<Rightarrow> jsstring" where
  "decimal n = (if n < 0 then str (CHR ''-'' # digits (nat (- n))) else str (digits (nat n)))"

section \<open>Data exchanged with the server\<close>

datatype js_error = NetworkError | SyntaxError | URIError | TypeError

text \<open>
  The outcome of \<^verbatim>\<open>await fetch(...)\<close> followed by \<^verbatim>\<open>response.json()\<close>: the request is
  rejected, or it is answered with a status and a body, which parses as JSON (\<open>Some\<close>)
  or does not (\<open>None\<close>).
\<close>

datatype 'a fetched = Rejected | Answered nat "'a option"

definition ok :: "nat \<Rightarrow> bool" where
  \<comment> \<open>\<^verbatim>\<open>response.ok\<close>\<close>
  "ok status \<longleftrightarrow> 200 \<le> status \<and> status \<le> 299"

text \<open>
  The parsed body of \<^verbatim>\<open>GET /activities\<close>, in the order of \<^verbatim>\<open>Object.entries\<close>, with
  the members the interface gives an activity. \<open>max_participants\<close> is a non-negative
  integer below \<open>2 ^ 53\<close>: JavaScript numbers hold these and their differences with the
  length of an array exactly, and print them in decimal digits.
\<close>

record details =
  description :: jsstring
  schedule :: jsstring
  max_participants :: "53 word"
  participants :: "jsstring list"

type_synonym activities = "(jsstring \<times> details) list"

text \<open>
  The parsed body of a signup or unregister answer is any JSON value. A number is kept
  as the text that \<^verbatim>\<open>Number::toString\<close> gives it (zero, the one number that counts as
  false, prints as \<^verbatim>\<open>0\<close>); an object is kept as the list of its own properties, whose
  names are distinct.
\<close>

datatype json =
  JNull | JBool bool | JNumber jsstring | JString jsstring
  | JArray "json list" | JObject "(jsstring \<times> json) list"

definition Get :: "string \<Rightarrow> json \<Rightarrow> js_error + json option" where
  \<comment> \<open>reading a property that no prototype defines, as \<^verbatim>\<open>message\<close> and \<^verbatim>\<open>detail\<close>:
      \<^verbatim>\<open>null\<close> throws, an object gives its own property, every other value and a missing
      property give \<^verbatim>\<open>undefined\<close> (\<open>None\<close>)\<close>
  "Get name v =
     (case v of
        JNull \<Rightarrow> Inl TypeError
      | JObject properties \<Rightarrow> Inr (map_of properties (str name))
      | _ \<Rightarrow> Inr None)"

definition ToBoolean :: "json option \<Rightarrow> bool" where
  "ToBoolean x =
     (case x of
        None \<Rightarrow> False
      | Some JNull \<Rightarrow> False
      | Some (JBool b) \<Rightarrow> b
      | Some (JNumber text) \<Rightarrow> text \<noteq> str ''0''
      | Some (JString s) \<Rightarrow> s \<noteq> []
      | Some _ \<Rightarrow> True)"

fun join :: "jsstring list \<Rightarrow> jsstring" where
  \<comment> \<open>with a comma as separator\<close>
  "join [] = []"
| "join [x] = x"
| "join (x # y # ys) = x @ 44 # join (y # ys)"

fun all_defined :: "'a option list \<Rightarrow> 'a list option" where
  "all_defined [] = Some []"
| "all_defined (x # xs) =
     (case x of None \<Rightarrow> None | Some y \<Rightarrow> map_option ((#) y) (all_defined xs))"

fun ToString :: "json \<Rightarrow> jsstring option" where
  \<comment> \<open>\<open>None\<close> is a TypeError: an object with a property of its own named
      \<^verbatim>\<open>toString\<close>, which is no function, has no primitive value. An array joins its
      elements, \<^verbatim>\<open>null\<close> giving the empty string.\<close>
  "ToString JNull = Some (str ''null'')"
| "ToString (JBool b) = Some (if b then str ''true'' else str ''false'')"
| "ToString (JNumber text) = Some text"
| "ToString (JString s) = Some s"
| "ToString (JArray elements) =
     map_option join
       (all_defined (map (\<lambda>e. if e = JNull then Some [] else ToString e) elements))"
| "ToString (JObject properties) =
     (if str ''toString'' \<in> fst ` set properties then None else Some (str ''[object Object]''))"

definition textContent_of :: "json option \<Rightarrow> js_error + jsstring" where
  \<comment> \<open>the text that assigning a value to \<^verbatim>\<open>textContent\<close> leaves: empty for \<^verbatim>\<open>undefined\<close>
      and \<^verbatim>\<open>null\<close>, the string conversion for every other value\<close>
  "textContent_of x =
     (case x of
        None \<Rightarrow> Inr []
      | Some JNull \<Rightarrow> Inr []
      | Some v \<Rightarrow> (case ToString v of None \<Rightarrow> Inl TypeError | Some text \<Rightarrow> Inr text))"

datatype request = GET jsstring | POST jsstring | DELETE jsstring

section \<open>The page\<close>

text \<open>
  The page is the four elements the script looks up, the two fields of the form, the
  pending timers with the clock, and the requests sent so far. Of the list area the
  model keeps what the script puts there: a card with the markup assigned to its
  \<^verbatim>\<open>innerHTML\<close>, or the markup assigned to the \<^verbatim>\<open>innerHTML\<close> of the list area itself. The
  markup is kept as the string the template literal evaluates to; what the parser of the
  browser makes of it is not modelled. An option of the select is an element the script
  builds, with its value and its text. \<open>messageDiv_classList\<close> is the class attribute of
  the message element as a list of tokens. \<open>email_default\<close> is the value the markup of the
  page gives the email field, to which \<^verbatim>\<open>signupForm.reset()\<close> returns it. \<^verbatim>\<open>console.error\<close>
  changes nothing on the page and is left out.
\<close>

datatype node = Activity_card jsstring | Markup jsstring

record option_el =
  option_value :: jsstring
  option_text :: jsstring

record page =
  activitiesList :: "node list"
  activitySelect :: "option_el list"
  messageDiv_textContent :: jsstring
  messageDiv_classList :: "string list"
  email_value :: jsstring
  email_default :: jsstring
  activity_value :: jsstring
  timers :: "nat list"
  now :: nat
  requests :: "request list"

definition sentinel :: option_el where
  \<comment> \<open>the option of the markup \<^verbatim>\<open><option value="">-- Select an activity --</option>\<close>\<close>
  "sentinel = \<lparr>option_value = [], option_text = str ''-- Select an activity --''\<rparr>"

definition classList_remove :: "string \<Rightarrow> page \<Rightarrow> page" where
  "classList_remove c s = s\<lparr>messageDiv_classList := filter (\<lambda>x. x \<noteq> c) (messageDiv_classList s)\<rparr>"

definition classList_add :: "string \<Rightarrow> page \<Rightarrow> page" where
  "classList_add c s =
     (if c \<in> set (messageDiv_classList s) then s
      else s\<lparr>messageDiv_classList := messageDiv_classList s @ [c]\<rparr>)"

definition message_hidden :: "page \<Rightarrow> bool" where
  \<comment> \<open>the style sheet takes an element of class \<^verbatim>\<open>hidden\<close> off the display\<close>
  "message_hidden s \<longleftrightarrow> ''hidden'' \<in> set (messageDiv_classList s)"

definition setTimeout_hide :: "page \<Rightarrow> page" where
  \<comment> \<open>\<^verbatim>\<open>setTimeout(() => { messageDiv.classList.add("hidden"); }, 5000)\<close>\<close>
  "setTimeout_hide s = s\<lparr>timers := timers s @ [now s + 5000]\<rparr>"

definition advance :: "nat \<Rightarrow> page \<Rightarrow> page" where
  \<comment> \<open>the clock reaches \<open>t\<close>: every timer due by then has run its callback\<close>
  "advance t s =
     (fold (\<lambda>_. classList_add ''hidden'') (filter (\<lambda>d. d \<le> t) (timers s)) s)
       \<lparr>timers := filter (\<lambda>d. t < d) (timers s), now := max (now s) t\<rparr>"

definition signupForm_reset :: "page \<Rightarrow> page" where
  \<comment> \<open>the email field returns to its default; the select, none of whose options is
      marked as selected, returns to its first option\<close>
  "signupForm_reset s =
     s\<lparr>email_value := email_default s,
       activity_value := (case activitySelect s of [] \<Rightarrow> [] | opt # _ \<Rightarrow> option_value opt)\<rparr>"

section \<open>\<^verbatim>\<open>fetchActivities\<close>\<close>

definition participant_item :: "jsstring \<Rightarrow> jsstring \<Rightarrow> js_error + jsstring" where
  \<comment> \<open>the template literal of line 27, for the participant \<open>p\<close> of the activity \<open>name\<close>\<close>
  "participant_item name p =
     (case encodeURIComponent name of
        None \<Rightarrow> Inl URIError
      | Some a \<Rightarrow>
          (case encodeURIComponent p of
             None \<Rightarrow> Inl URIError
           | Some e \<Rightarrow>
               Inr (str ''<div class=\"participant-item\" data-activity=\"'' @ a @
                    str ''\" data-email=\"'' @ e @ str ''\"><span>'' @ p @
                    str ''</span><button class=\"delete-btn\" aria-label=\"Remove participant\">'' @
                    [0x2715] @ str ''</button></div>'')))"

fun participant_items :: "jsstring \<Rightarrow> jsstring list \<Rightarrow> js_error + jsstring list" where
  \<comment> \<open>\<^verbatim>\<open>details.participants.map(...)\<close>\<close>
  "participant_items name [] = Inr []"
| "participant_items name (p # ps) =
     (case participant_item name p of
        Inl err \<Rightarrow> Inl err
      | Inr item \<Rightarrow>
          (case participant_items name ps of
             Inl err \<Rightarrow> Inl err
           | Inr items \<Rightarrow> Inr (item # items)))"

definition participantsSection :: "jsstring \<Rightarrow> details \<Rightarrow> js_error + jsstring" where
  "participantsSection name d =
     (if length (participants d) \<noteq> 0 then
        (case participant_items name (participants d) of
           Inl err \<Rightarrow> Inl err
         | Inr items \<Rightarrow>
             Inr (str ''<div class=\"participants\"><strong>Participants:</strong><div class=\"participants-list\">'' @
                  concat items @ str ''</div></div>''))
      else
        Inr (str ''<div class=\"participants\"><strong>Participants:</strong><p class=\"no-participants\">No participants yet</p></div>''))"

definition indent :: jsstring where
  \<comment> \<open>the line break and the ten spaces before each line of the template of lines 31 to 37\<close>
  "indent = 10 # str ''          ''"

definition activityCard :: "jsstring \<Rightarrow> details \<Rightarrow> js_error + jsstring" where
  \<comment> \<open>the markup assigned to \<^verbatim>\<open>activityCard.innerHTML\<close>\<close>
  "activityCard name d =
     (let spotsLeft = uint (max_participants d) - int (length (participants d)) in
      case participantsSection name d of
        Inl err \<Rightarrow> Inl err
      | Inr items \<Rightarrow>
          Inr (indent @ str ''<h4>'' @ name @ str ''</h4>'' @
               indent @ str ''<p>'' @ description d @ str ''</p>'' @
               indent @ str ''<p><strong>Schedule:</strong> '' @ schedule d @ str ''</p>'' @
               indent @ str ''<p><strong>Availability:</strong> '' @ decimal spotsLeft @
                 str '' spots left</p>'' @
               indent @ items @
               10 # str ''        ''))"

fun forEach_activity :: "activities \<Rightarrow> page \<Rightarrow> (js_error \<times> page) + page" where
  "forEach_activity [] s = Inr s"
| "forEach_activity ((name, d) # rest) s =
     (case activityCard name d of
        Inl err \<Rightarrow> Inl (err, s)
      | Inr html \<Rightarrow>
          forEach_activity rest
            (s\<lparr>activitiesList := activitiesList s @ [Activity_card html],
               activitySelect := activitySelect s @ [\<lparr>option_value = name, option_text = name\<rparr>]\<rparr>))"

definition option_for :: "jsstring \<times> details \<Rightarrow> option_el" where
  \<comment> \<open>the option that the loop adds to the select for an entry\<close>
  "option_for entry = \<lparr>option_value = fst entry, option_text = fst entry\<rparr>"

definition fetchActivities_call :: "page \<Rightarrow> page" where
  \<comment> \<open>up to the first \<^verbatim>\<open>await\<close>: the request is sent\<close>
  "fetchActivities_call s = s\<lparr>requests := requests s @ [GET (str ''/activities'')]\<rparr>"

definition fetchActivities_try :: "activities fetched \<Rightarrow> page \<Rightarrow> (js_error \<times> page) + page" where
  \<comment> \<open>the \<^verbatim>\<open>try\<close> block from the arrival of the answer on: \<open>Inl\<close> carries the exception
      and the page as the \<^verbatim>\<open>catch\<close> block finds it. Replacing the options of the select
      leaves the sentinel selected. The listeners are bound to every element of class
      \<^verbatim>\<open>delete-btn\<close> that the parser has made; what a click does is \<open>delete_click\<close> and
      \<open>unregister_response\<close> below.\<close>
  "fetchActivities_try r s =
     (case r of
        Rejected \<Rightarrow> Inl (NetworkError, s)
      | Answered status None \<Rightarrow> Inl (SyntaxError, s)
      | Answered status (Some acts) \<Rightarrow>
          forEach_activity acts
            (s\<lparr>activitiesList := [], activitySelect := [sentinel], activity_value := []\<rparr>))"

definition fetchActivities_resume :: "activities fetched \<Rightarrow> page \<Rightarrow> page" where
  \<comment> \<open>from the arrival of the answer to the end of the function, \<^verbatim>\<open>catch\<close> included\<close>
  "fetchActivities_resume r s =
     (case fetchActivities_try r s of
        Inr s' \<Rightarrow> s'
      | Inl (err, s') \<Rightarrow>
          s'\<lparr>activitiesList :=
               [Markup (str ''<p>Failed to load activities. Please try again later.</p>'')]\<rparr>)"

section \<open>The click handler of a removal control\<close>

text \<open>
  The handler starts from \<^verbatim>\<open>btn.closest(".participant-item")\<close>, which depends on the
  tree the parser has built: the model takes its result as an argument, \<open>None\<close> for
  \<^verbatim>\<open>null\<close>, else the two data attributes of the element found, each present or not.
\<close>

record dataset =
  data_activity :: "jsstring option"
  data_email :: "jsstring option"

definition decodeURIComponent_of :: "jsstring option \<Rightarrow> jsstring option" where
  \<comment> \<open>the argument is converted to a string first: \<^verbatim>\<open>undefined\<close> reads "undefined"\<close>
  "decodeURIComponent_of x =
     decodeURIComponent (case x of None \<Rightarrow> str ''undefined'' | Some v \<Rightarrow> v)"

definition dataset_pair :: "dataset option \<Rightarrow> js_error + jsstring \<times> jsstring" where
  \<comment> \<open>lines 52 to 54, which stand before the \<^verbatim>\<open>try\<close>\<close>
  "dataset_pair participantItem =
     (case participantItem of
        None \<Rightarrow> Inl TypeError
      | Some ds \<Rightarrow>
          (case decodeURIComponent_of (data_activity ds) of
             None \<Rightarrow> Inl URIError
           | Some activity \<Rightarrow>
               (case decodeURIComponent_of (data_email ds) of
                  None \<Rightarrow> Inl URIError
                | Some email \<Rightarrow> Inr (activity, email))))"

definition unregister_url :: "jsstring \<Rightarrow> jsstring \<Rightarrow> jsstring option" where
  "unregister_url activity email =
     (case encodeURIComponent activity of
        None \<Rightarrow> None
      | Some a \<Rightarrow>
          (case encodeURIComponent email of
             None \<Rightarrow> None
           | Some e \<Rightarrow> Some (str ''/activities/'' @ a @ str ''/unregister?email='' @ e)))"

definition unregister_catch :: "page \<Rightarrow> page" where
  "unregister_catch s =
     classList_remove ''hidden''
       (s\<lparr>messageDiv_textContent := str ''Failed to unregister. Please try again.'',
          messageDiv_classList := [''message'', ''error'']\<rparr>)"

definition delete_click :: "dataset option \<Rightarrow> page \<Rightarrow> js_error + page" where
  \<comment> \<open>up to the first \<^verbatim>\<open>await\<close>; \<open>Inl\<close> is an exception that leaves the handler\<close>
  "delete_click participantItem s =
     (case dataset_pair participantItem of
        Inl err \<Rightarrow> Inl err
      | Inr (activity, email) \<Rightarrow>
          (case unregister_url activity email of
             None \<Rightarrow> Inr (unregister_catch s)
           | Some url \<Rightarrow> Inr (s\<lparr>requests := requests s @ [DELETE url]\<rparr>)))"

definition unregister_failure :: "json \<Rightarrow> js_error + jsstring" where
  \<comment> \<open>the text of line 78\<close>
  "unregister_failure result =
     (case Get ''detail'' result of
        Inl err \<Rightarrow> Inl err
      | Inr d \<Rightarrow> if ToBoolean d then textContent_of d else Inr (str ''Failed to unregister''))"

definition unregister_response :: "jsstring \<Rightarrow> jsstring \<Rightarrow> json fetched \<Rightarrow> page \<Rightarrow> page" where
  \<comment> \<open>from the arrival of the answer on; \<open>activity\<close> and \<open>email\<close> are the decoded pair.
      The body is parsed on a failure status only.\<close>
  "unregister_response activity email r s =
     (case r of
        Rejected \<Rightarrow> unregister_catch s
      | Answered status body \<Rightarrow>
          if ok status then
            fetchActivities_call
              (setTimeout_hide
                (classList_remove ''hidden''
                  (s\<lparr>messageDiv_textContent :=
                       str ''Unregistered '' @ email @ str '' from '' @ activity,
                     messageDiv_classList := [''message'', ''success'']\<rparr>)))
          else
            (case body of
               None \<Rightarrow> unregister_catch s
             | Some result \<Rightarrow>
                 (case unregister_failure result of
                    Inl err \<Rightarrow> unregister_catch s
                  | Inr text \<Rightarrow>
                      classList_remove ''hidden''
                        (s\<lparr>messageDiv_textContent := text,
                           messageDiv_classList := [''message'', ''error'']\<rparr>))))"

section \<open>The submit handler of the signup form\<close>

definition signup_url :: "jsstring \<Rightarrow> jsstring \<Rightarrow> jsstring option" where
  "signup_url activity email =
     (case encodeURIComponent activity of
        None \<Rightarrow> None
      | Some a \<Rightarrow>
          (case encodeURIComponent email of
             None \<Rightarrow> None
           | Some e \<Rightarrow> Some (str ''/activities/'' @ a @ str ''/signup?email='' @ e)))"

definition signup_catch :: "page \<Rightarrow> page" where
  "signup_catch s =
     classList_remove ''hidden''
       (s\<lparr>messageDiv_textContent := str ''Failed to sign up. Please try again.'',
          messageDiv_classList := [''error'']\<rparr>)"

definition signup_submit :: "page \<Rightarrow> page" where
  \<comment> \<open>up to the first \<^verbatim>\<open>await\<close>\<close>
  "signup_submit s =
     (case signup_url (activity_value s) (email_value s) of
        None \<Rightarrow> signup_catch s
      | Some url \<Rightarrow> s\<lparr>requests := requests s @ [POST url]\<rparr>)"

definition signup_success :: "json \<Rightarrow> js_error + jsstring" where
  \<comment> \<open>the text of line 114\<close>
  "signup_success result =
     (case Get ''message'' result of Inl err \<Rightarrow> Inl err | Inr m \<Rightarrow> textContent_of m)"

definition signup_failure :: "json \<Rightarrow> js_error + jsstring" where
  \<comment> \<open>the text of line 121\<close>
  "signup_failure result =
     (case Get ''detail'' result of
        Inl err \<Rightarrow> Inl err
      | Inr d \<Rightarrow> if ToBoolean d then textContent_of d else Inr (str ''An error occurred''))"

definition signup_response :: "json fetched \<Rightarrow> page \<Rightarrow> page" where
  \<comment> \<open>from the arrival of the answer on. The body is parsed before the status is looked
      at; an exception of line 114 or 121 reaches the \<^verbatim>\<open>catch\<close> block before anything on
      the page has changed.\<close>
  "signup_response r s =
     (case r of
        Rejected \<Rightarrow> signup_catch s
      | Answered status None \<Rightarrow> signup_catch s
      | Answered status (Some result) \<Rightarrow>
          if ok status then
            (case signup_success result of
               Inl err \<Rightarrow> signup_catch s
             | Inr text \<Rightarrow>
                 setTimeout_hide
                   (classList_remove ''hidden''
                     (fetchActivities_call
                       (signupForm_reset
                         (s\<lparr>messageDiv_textContent := text,
                            messageDiv_classList := [''message'', ''success'']\<rparr>)))))
          else
            (case signup_failure result of
               Inl err \<Rightarrow> signup_catch s
             | Inr text \<Rightarrow>
                 setTimeout_hide
                   (classList_remove ''hidden''
                     (s\<lparr>messageDiv_textContent := text,
                        messageDiv_classList := [''message'', ''error'']\<rparr>))))"

section \<open>A page, snapshots and answers to evaluate on\<close>

definition chess_club :: activities where
  "chess_club =
     [(str ''Chess Club'',
       \<lparr>description = str ''Learn strategies'', schedule = str ''Fridays'',
        max_participants = 10, participants = [str ''a@x.com'']\<rparr>)]"

definition markup_club :: activities where
  \<comment> \<open>one participant, whose email holds markup\<close>
  "markup_club =
     [(str ''Chess Club'',
       \<lparr>description = str ''Learn strategies'', schedule = str ''Fridays'',
        max_participants = 10,
        participants = [str ''<div class=\"participant-item\">x</div>'']\<rparr>)]"

definition page0 :: page where
  "page0 =
     \<lparr>activitiesList = [Markup (str ''<p>Loading activities...</p>'')],
      activitySelect = [sentinel],
      messageDiv_textContent = [], messageDiv_classList = [''hidden''],
      email_value = str ''a@x.com'', email_default = [], activity_value = str ''Chess Club'',
      timers = [], now = 0, requests = []\<rparr>"

definition not_found :: json where
  "not_found = JObject [(str ''detail'', JString (str ''Participant not found''))]"

definition signed_up :: json where
  "signed_up = JObject [(str ''message'', JString (str ''Signed up a@x.com for Chess Club''))]"

definition already_signed_up :: json where
  "already_signed_up = JObject [(str ''detail'', JString (str ''Already signed up''))]"

definition validation_error :: json where
  \<comment> \<open>a detail that is a list of objects\<close>
  "validation_error =
     JObject [(str ''detail'', JArray [JObject [(str ''msg'', JString (str ''field required''))]])]"

section \<open>Percent-encoding: decoding inverts encoding\<close>

lemma hex_value_hex_digit: "d < 16 \<Longrightarrow> hex_value (hex_digit d) = Some d"
  by (auto simp: hex_value_def hex_digit_def)

lemma ParseHexOctet_escape:
  assumes "b < 256"
  shows "ParseHexOctet (hex_digit (b div 16) # hex_digit (b mod 16) # rest) = Some b"
proof -
  have "b div 16 < 16" using assms by arith
  moreover have "b mod 16 < 16" by simp
  ultimately show ?thesis by (simp add: hex_value_hex_digit)
qed

lemma continuation_octets_escape:
  "b < 256 \<Longrightarrow>
   continuation_octets (Suc j) (escape b @ rest) = map_option ((#) b) (continuation_octets j rest)"
  by (simp add: escape_def ParseHexOctet_escape del: ParseHexOctet.simps)

lemma Decode_escape:
  "b < 256 \<Longrightarrow>
   Decode (escape b @ rest) =
     (let n = leading_ones b in
      if n = 0 then map_option ((#) b) (Decode rest)
      else if n = 1 \<or> n > 4 then None
      else (case continuation_octets (n - 1) rest of
              None \<Rightarrow> None
            | Some octets \<Rightarrow>
                (case utf8_code_point (b # octets) of
                   None \<Rightarrow> None
                 | Some v \<Rightarrow> map_option ((@) (UTF16EncodeCodePoint v))
                     (Decode (drop (3 * (n - 1)) rest)))))"
  by (simp add: escape_def ParseHexOctet_escape Let_def del: ParseHexOctet.simps
      cong: option.case_cong)

lemma length_escape: "length (escape b) = 3"
  by (simp add: escape_def)

lemma append_single: "(@) [x] = (#) x"
  by (rule ext) simp

lemma Decode_one:
  assumes "cp < 0x80"
  shows "Decode (concat (map escape (utf8_octets cp)) @ rest) = map_option ((#) cp) (Decode rest)"
  using assms by (simp add: utf8_octets_def Decode_escape leading_ones_def)

lemma Decode_two:
  assumes "0x80 \<le> cp" "cp < 0x800"
  shows "Decode (concat (map escape (utf8_octets cp)) @ rest) = map_option ((#) cp) (Decode rest)"
proof -
  define a where "a = 0xC0 + cp div 64"
  define b where "b = 0x80 + cp mod 64"
  have a: "0xC0 \<le> a" "a < 0xE0" using assms by (auto simp: a_def)
  have b: "0x80 \<le> b" "b \<le> 0xBF" by (auto simp: b_def)
  have cp: "(a - 0xC0) * 64 + (b - 0x80) = cp" by (simp add: a_def b_def)
  have o: "utf8_octets cp = [a, b]" using assms by (simp add: utf8_octets_def a_def b_def)
  have la: "leading_ones a = 2" using a by (simp add: leading_ones_def)
  have "Decode (escape a @ escape b @ rest) = map_option ((#) cp) (Decode rest)"
    using a b assms
    by (simp add: Decode_escape la continuation_octets_escape [where j=0, simplified]
        cp is_continuation_def UTF16EncodeCodePoint_def Let_def length_escape append_single)
  then show ?thesis by (simp add: o)
qed

lemma mod_4096: "(cp::nat) mod 4096 = 64 * (cp div 64 mod 64) + cp mod 64"
  using mod_mult2_eq [of cp 64 64] by simp

lemma mod_262144: "(cp::nat) mod 262144 = 4096 * (cp div 4096 mod 64) + cp mod 4096"
  using mod_mult2_eq [of cp 4096 64] by simp

lemma three_octet_parts: "cp div 4096 * 4096 + cp div 64 mod 64 * 64 + cp mod 64 = (cp::nat)"
  using div_mult_mod_eq [of cp 4096] by (simp add: mod_4096)

lemma four_octet_parts: "cp div 262144 * 262144 + cp div 4096 mod 64 * 4096 + cp div 64 mod 64 * 64 + cp mod 64 = (cp::nat)"
  using div_mult_mod_eq [of cp 262144] by (simp add: mod_262144 mod_4096)

lemma div_262144_less: "cp \<le> 0x10FFFF \<Longrightarrow> cp div 262144 < (8::nat)"
  by (rule less_mult_imp_div_less) simp

lemma div_4096_less: "cp < 0x10000 \<Longrightarrow> cp div 4096 < (16::nat)"
  by (rule less_mult_imp_div_less) simp

lemma div_64_less: "cp < 0x800 \<Longrightarrow> cp div 64 < (32::nat)"
  by (rule less_mult_imp_div_less) simp

lemma Decode_three:
  assumes "0x800 \<le> cp" "cp < 0x10000" "\<not> (0xD800 \<le> cp \<and> cp \<le> 0xDFFF)"
  shows "Decode (concat (map escape (utf8_octets cp)) @ rest) = map_option ((#) cp) (Decode rest)"
proof -
  define a where "a = 0xE0 + cp div 4096"
  define b where "b = 0x80 + cp div 64 mod 64"
  define c where "c = 0x80 + cp mod 64"
  have a: "0xE0 \<le> a" "a < 0xF0" using div_4096_less [OF assms(2)] by (simp_all add: a_def)
  have b: "0x80 \<le> b" "b \<le> 0xBF" "b < 256" by (simp_all add: b_def)
  have c: "0x80 \<le> c" "c \<le> 0xBF" "c < 256" by (simp_all add: c_def)
  have cp: "(a - 0xE0) * 4096 + (b - 0x80) * 64 + (c - 0x80) = cp"
    using three_octet_parts [of cp] by (simp add: a_def b_def c_def)
  have o: "utf8_octets cp = [a, b, c]"
    using assms by (simp add: utf8_octets_def a_def b_def c_def)
  have la: "leading_ones a = 3" using a by (simp add: leading_ones_def)
  have co: "continuation_octets 2 (escape b @ escape c @ rest) = Some [b, c]"
    using b c by (simp add: numeral_2_eq_2 continuation_octets_escape del: continuation_octets.simps(2))
  have v: "utf8_code_point [a, b, c] = Some cp"
    using assms b c by (simp add: cp is_continuation_def)
  have "a < 256" using a by simp
  then have "Decode (escape a @ escape b @ escape c @ rest) = map_option ((#) cp) (Decode rest)"
    using assms(2)
    by (simp add: Decode_escape la co v UTF16EncodeCodePoint_def length_escape append_single
        del: utf8_code_point.simps)
  then show ?thesis by (simp add: o)
qed

lemma Decode_four:
  assumes "0x10000 \<le> cp" "cp \<le> 0x10FFFF"
  shows "Decode (concat (map escape (utf8_octets cp)) @ rest) =
         map_option ((@) (UTF16EncodeCodePoint cp)) (Decode rest)"
proof -
  define a where "a = 0xF0 + cp div 262144"
  define b where "b = 0x80 + cp div 4096 mod 64"
  define c where "c = 0x80 + cp div 64 mod 64"
  define d where "d = 0x80 + cp mod 64"
  have a: "0xF0 \<le> a" "a < 0xF8" using div_262144_less [OF assms(2)] by (simp_all add: a_def)
  have b: "0x80 \<le> b" "b \<le> 0xBF" "b < 256" by (simp_all add: b_def)
  have c: "0x80 \<le> c" "c \<le> 0xBF" "c < 256" by (simp_all add: c_def)
  have d: "0x80 \<le> d" "d \<le> 0xBF" "d < 256" by (simp_all add: d_def)
  have cp: "(a - 0xF0) * 262144 + (b - 0x80) * 4096 + (c - 0x80) * 64 + (d - 0x80) = cp"
    using four_octet_parts [of cp] by (simp add: a_def b_def c_def d_def)
  have o: "utf8_octets cp = [a, b, c, d]"
    using assms by (simp add: utf8_octets_def a_def b_def c_def d_def)
  have la: "leading_ones a = 4" using a by (simp add: leading_ones_def)
  have co: "continuation_octets 3 (escape b @ escape c @ escape d @ rest) = Some [b, c, d]"
    using b c d by (simp add: numeral_3_eq_3 continuation_octets_escape del: continuation_octets.simps(2))
  have v: "utf8_code_point [a, b, c, d] = Some cp"
    using assms b c d by (simp add: cp is_continuation_def)
  have "a < 256" using a by simp
  then have "Decode (escape a @ escape b @ escape c @ escape d @ rest) =
        map_option ((@) (UTF16EncodeCodePoint cp)) (Decode rest)"
    by (simp add: Decode_escape la co v length_escape del: utf8_code_point.simps)
  then show ?thesis by (simp add: o)
qed

lemma unescaped_ascii: "unescaped c \<Longrightarrow> c < 128 \<and> c \<noteq> 37"
  by (auto simp: unescaped_def)

lemma unescaped_not_surrogate: "unescaped c \<Longrightarrow> \<not> is_lead c \<and> \<not> is_trail c"
  by (auto simp: unescaped_def is_lead_def is_trail_def)

lemma lead_not_trail: "is_lead c \<Longrightarrow> \<not> is_trail c"
  by (simp add: is_lead_def is_trail_def)

lemma Decode_code_point:
  assumes "cp \<le> 0x10FFFF" "\<not> is_lead cp" "\<not> is_trail cp"
  shows "Decode (concat (map escape (utf8_octets cp)) @ rest) =
         map_option ((@) (UTF16EncodeCodePoint cp)) (Decode rest)"
proof -
  consider "cp < 0x80" | "0x80 \<le> cp" "cp < 0x800" | "0x800 \<le> cp" "cp < 0x10000"
    | "0x10000 \<le> cp" by linarith
  then show ?thesis
  proof cases
    case 1
    then show ?thesis by (simp add: Decode_one UTF16EncodeCodePoint_def append_single)
  next
    case 2
    then show ?thesis by (simp add: Decode_two UTF16EncodeCodePoint_def append_single)
  next
    case 3
    moreover have "\<not> (0xD800 \<le> cp \<and> cp \<le> 0xDFFF)"
      using assms(2,3) by (auto simp: is_lead_def is_trail_def)
    ultimately show ?thesis by (simp add: Decode_three UTF16EncodeCodePoint_def append_single)
  next
    case 4
    then show ?thesis using assms(1) by (rule Decode_four)
  qed
qed

lemma pair_range:
  assumes "is_lead c" "is_trail d"
  shows "0x10000 \<le> pair_to_code_point c d" "pair_to_code_point c d \<le> 0x10FFFF"
  using assms unfolding pair_to_code_point_def is_lead_def is_trail_def by linarith+

lemma UTF16_pair:
  assumes "is_lead c" "is_trail d"
  shows "UTF16EncodeCodePoint (pair_to_code_point c d) = [c, d]"
proof -
  define x where "x = c - 0xD800"
  define y where "y = d - 0xDC00"
  have c: "c = x + 0xD800" and d: "d = y + 0xDC00" and y: "y < 0x400"
    using assms unfolding x_def y_def is_lead_def is_trail_def by linarith+
  have "pair_to_code_point c d - 0x10000 = x * 0x400 + y"
    by (simp add: pair_to_code_point_def c d)
  moreover have "(x * 0x400 + y) div 0x400 = x" "(x * 0x400 + y) mod 0x400 = y"
    using y by simp_all
  moreover have "\<not> pair_to_code_point c d \<le> 0xFFFF"
    using pair_range(1) [OF assms] by simp
  ultimately show ?thesis
    by (simp add: UTF16EncodeCodePoint_def c d)
qed

lemma Decode_Encode:
  "\<forall>u \<in> set cs. u < 65536 \<Longrightarrow> Encode cs = Some e \<Longrightarrow> Decode e = Some cs"
proof (induction cs arbitrary: e rule: Encode.induct)
  case 1
  then show ?case by simp
next
  case (2 c cs)
  show ?case
  proof (cases "unescaped c")
    case True
    with "2.prems" obtain e' where e': "Encode cs = Some e'" "e = c # e'" by auto
    have "Decode e' = Some cs" using "2.IH"(1) [OF True _ e'(1)] "2.prems"(1) by simp
    then show ?thesis using unescaped_ascii [OF True] by (simp add: e'(2))
  next
    case False
    note esc = this
    show ?thesis
    proof (cases "is_lead c")
      case True
      then have nt: "\<not> is_trail c" by (rule lead_not_trail)
      from "2.prems"(2) esc nt True obtain d ds e' where
        cs: "cs = d # ds" and d: "is_trail d" and e': "Encode ds = Some e'"
        and e: "e = concat (map escape (utf8_octets (pair_to_code_point c d))) @ e'"
        by (auto split: list.splits if_splits)
      have "Decode e' = Some ds"
        using "2.IH"(2) [OF esc nt True cs d _ e'] "2.prems"(1) cs by simp
      moreover have "\<not> is_lead (pair_to_code_point c d)" "\<not> is_trail (pair_to_code_point c d)"
        using pair_range(1) [OF True d] by (simp_all add: is_lead_def is_trail_def)
      ultimately show ?thesis
        using Decode_code_point [OF pair_range(2) [OF True d], of e']
        by (simp add: e cs UTF16_pair [OF True d])
    next
      case False
      from "2.prems"(2) esc False have nt: "\<not> is_trail c" by (auto split: if_splits)
      from "2.prems"(2) esc False nt obtain e' where e': "Encode cs = Some e'"
        and e: "e = concat (map escape (utf8_octets c)) @ e'" by auto
      have "Decode e' = Some cs"
        using "2.IH"(3) [OF esc nt False _ e'] "2.prems"(1) by simp
      moreover have "c \<le> 0x10FFFF" "c \<le> 0xFFFF" using "2.prems"(1) by simp_all
      ultimately show ?thesis
        using Decode_code_point [OF _ False nt, of e']
        by (simp add: e UTF16EncodeCodePoint_def)
    qed
  qed
qed

lemma Encode_iff_well_formed: "Encode cs \<noteq> None \<longleftrightarrow> well_formed cs"
  by (induction cs rule: Encode.induct)
    (auto simp: unescaped_not_surrogate lead_not_trail split: list.splits)

lemma hex_digit_unescaped: "d < 16 \<Longrightarrow> unescaped (hex_digit d)"
  by (auto simp: hex_digit_def unescaped_def)

lemma escape_units: "u \<in> set (escape b) \<Longrightarrow> b < 256 \<Longrightarrow> unescaped u \<or> u = 37"
proof -
  assume u: "u \<in> set (escape b)" and b: "b < 256"
  have "b div 16 < 16" using b by (intro less_mult_imp_div_less) simp
  moreover have "b mod 16 < 16" by simp
  ultimately show ?thesis using u by (auto simp: escape_def hex_digit_unescaped)
qed

lemma utf8_octets_less:
  assumes "cp \<le> 0x10FFFF" "b \<in> set (utf8_octets cp)"
  shows "b < 256"
proof -
  consider "cp < 0x80" | "0x80 \<le> cp" "cp < 0x800" | "0x800 \<le> cp" "cp < 0x10000"
    | "0x10000 \<le> cp" by linarith
  then show ?thesis
  proof cases
    case 1
    then show ?thesis using assms(2) by (simp add: utf8_octets_def)
  next
    case 2
    then show ?thesis using assms(2) div_64_less [of cp]
      by (auto simp: utf8_octets_def)
  next
    case 3
    then show ?thesis using assms(2) div_4096_less [of cp]
      by (auto simp: utf8_octets_def)
  next
    case 4
    then show ?thesis using assms div_262144_less [of cp]
      by (auto simp: utf8_octets_def)
  qed
qed

lemma escaped_units:
  assumes "cp \<le> 0x10FFFF" "u \<in> set (concat (map escape (utf8_octets cp)))"
  shows "unescaped u \<or> u = 37"
  using assms by (auto dest: utf8_octets_less escape_units)

lemma Encode_units:
  "\<forall>u \<in> set cs. u < 65536 \<Longrightarrow> Encode cs = Some e \<Longrightarrow> \<forall>u \<in> set e. unescaped u \<or> u = 37"
proof (induction cs arbitrary: e rule: Encode.induct)
  case 1
  then show ?case by simp
next
  case (2 c cs)
  show ?case
  proof (cases "unescaped c")
    case True
    with "2.prems" obtain e' where e': "Encode cs = Some e'" "e = c # e'" by auto
    have "\<forall>u \<in> set e'. unescaped u \<or> u = 37"
      using "2.IH"(1) [OF True _ e'(1)] "2.prems"(1) by simp
    then show ?thesis using True by (simp add: e'(2))
  next
    case False
    note esc = this
    show ?thesis
    proof (cases "is_lead c")
      case True
      then have nt: "\<not> is_trail c" by (rule lead_not_trail)
      from "2.prems"(2) esc nt True obtain d ds e' where
        cs: "cs = d # ds" and d: "is_trail d" and e': "Encode ds = Some e'"
        and e: "e = concat (map escape (utf8_octets (pair_to_code_point c d))) @ e'"
        by (auto split: list.splits if_splits)
      have "\<forall>u \<in> set e'. unescaped u \<or> u = 37"
        using "2.IH"(2) [OF esc nt True cs d _ e'] "2.prems"(1) cs by simp
      then show ?thesis
        using escaped_units [OF pair_range(2) [OF True d]] by (auto simp: e)
    next
      case False
      from "2.prems"(2) esc False have nt: "\<not> is_trail c" by (auto split: if_splits)
      from "2.prems"(2) esc False nt obtain e' where e': "Encode cs = Some e'"
        and e: "e = concat (map escape (utf8_octets c)) @ e'" by auto
      have "\<forall>u \<in> set e'. unescaped u \<or> u = 37"
        using "2.IH"(3) [OF esc nt False _ e'] "2.prems"(1) by simp
      moreover have "c \<le> 0x10FFFF" using "2.prems"(1) by simp
      ultimately show ?thesis
        using escaped_units [of c] by (auto simp: e)
    qed
  qed
qed

lemma code_units_less: "\<forall>u \<in> set (map unat (s :: jsstring)). u < 65536"
proof
  fix u assume "u \<in> set (map unat s)"
  then obtain w :: "16 word" where "u = unat w" by auto
  then show "u < 65536" using unsigned_less [of w, where ?'a = nat] by simp
qed

lemma unat_of_nat_unit: "u < 65536 \<Longrightarrow> unat (of_nat u :: 16 word) = u"
  by (simp add: unat_of_nat)

lemma map_unat_of_nat:
  "\<forall>u \<in> set e. u < 65536 \<Longrightarrow> map unat (map of_nat e :: jsstring) = e"
  by (induction e) (simp_all add: unat_of_nat_unit)

lemma map_of_nat_unat: "map of_nat (map unat (s :: jsstring)) = s"
  by (induction s) simp_all

lemma encodeURIComponent_sound:
  assumes "encodeURIComponent s = Some e"
  shows "decodeURIComponent e = Some s"
    and "\<forall>u \<in> set e. unescaped (unat u) \<or> u = 37"
proof -
  from assms obtain e' where e': "Encode (map unat s) = Some e'" "e = map of_nat e'"
    by (auto simp: encodeURIComponent_def)
  have units: "\<forall>u \<in> set e'. unescaped u \<or> u = 37"
    using Encode_units [OF code_units_less e'(1)] .
  have small: "\<forall>u \<in> set e'. u < 65536"
  proof
    fix u assume "u \<in> set e'"
    with units have "unescaped u \<or> u = 37" by simp
    then show "u < 65536" using unescaped_ascii [of u] by auto
  qed
  have "map unat e = e'"
    unfolding e'(2) using small by (rule map_unat_of_nat)
  moreover have "Decode e' = Some (map unat s)"
    using Decode_Encode [OF code_units_less e'(1)] .
  ultimately have "Decode (map unat e) = Some (map unat s)" by simp
  then show "decodeURIComponent e = Some s"
    unfolding decodeURIComponent_def by (simp add: map_of_nat_unat del: map_map)
  show "\<forall>u \<in> set e. unescaped (unat u) \<or> u = 37"
  proof
    fix u assume "u \<in> set e"
    then obtain v where v: "v \<in> set e'" "u = of_nat v" by (auto simp: e'(2))
    then have "v < 65536" using small by simp
    then have "unat u = v" by (simp add: v(2) unat_of_nat_unit)
    then show "unescaped (unat u) \<or> u = 37" using units v by auto
  qed
qed

lemma encodeURIComponent_defined:
  "well_formed_string s \<Longrightarrow> \<exists>e. encodeURIComponent s = Some e"
  using Encode_iff_well_formed [of "map unat s"]
  by (auto simp: encodeURIComponent_def well_formed_string_def)

lemma encodeURIComponent_throws:
  "\<not> well_formed_string s \<Longrightarrow> encodeURIComponent s = None"
  using Encode_iff_well_formed [of "map unat s"]
  by (auto simp: encodeURIComponent_def well_formed_string_def)

lemmas codec_eval = encodeURIComponent_def decodeURIComponent_def str_def unescaped_def
  is_lead_def is_trail_def pair_to_code_point_def utf8_octets_def hex_digit_def escape_def
  hex_value_def leading_ones_def is_continuation_def UTF16EncodeCodePoint_def Let_def


lemma delete_click_sends_request:
  assumes "encodeURIComponent name = Some a" and "encodeURIComponent email = Some e"
  shows "delete_click (Some \<lparr>data_activity = Some a, data_email = Some e\<rparr>) s =
           Inr (s\<lparr>requests := requests s @
             [DELETE (str ''/activities/'' @ a @ str ''/unregister?email='' @ e)]\<rparr>)"
  by (simp add: delete_click_def dataset_pair_def decodeURIComponent_of_def unregister_url_def assms
      encodeURIComponent_sound(1) [OF assms(1)] encodeURIComponent_sound(1) [OF assms(2)])

text \<open>
  Claim C7, as far as it holds. The template writes the activity name and the email
  percent-encoded into the two data attributes of the row of a removal control; the
  click handler decodes the attributes of the row it finds. For a name and an email
  without an unpaired surrogate code unit (spaces, \<^verbatim>\<open>&\<close> and characters outside ASCII
  included) the two attribute values consist of unreserved characters and percent signs
  only, so they end at the quotation mark the template puts after them, and a handler
  that reads these two values decodes them to the original pair. When the name or the
  email has an unpaired surrogate, building the row throws and there is no control.
  Which row a click finds when an email holds markup is not part of the statement.
\<close>

theorem removal_control_roundtrip:
  "(well_formed_string name \<and> well_formed_string email \<longrightarrow>
      (\<exists>a e. encodeURIComponent name = Some a \<and> encodeURIComponent email = Some e \<and>
         participant_item name email =
           Inr (str ''<div class=\"participant-item\" data-activity=\"'' @ a @
                str ''\" data-email=\"'' @ e @ str ''\"><span>'' @ email @
                str ''</span><button class=\"delete-btn\" aria-label=\"Remove participant\">'' @
                [0x2715] @ str ''</button></div>'') \<and>
         (\<forall>u \<in> set (a @ e). unescaped (unat u) \<or> u = 37) \<and>
         dataset_pair (Some \<lparr>data_activity = Some a, data_email = Some e\<rparr>) = Inr (name, email))) \<and>
   (\<not> (well_formed_string name \<and> well_formed_string email) \<longrightarrow>
      participant_item name email = Inl URIError)"
proof (intro conjI impI)
  assume "well_formed_string name \<and> well_formed_string email"
  then obtain a e where a: "encodeURIComponent name = Some a"
    and e: "encodeURIComponent email = Some e"
    by (auto dest!: encodeURIComponent_defined)
  have "participant_item name email =
          Inr (str ''<div class=\"participant-item\" data-activity=\"'' @ a @
               str ''\" data-email=\"'' @ e @ str ''\"><span>'' @ email @
               str ''</span><button class=\"delete-btn\" aria-label=\"Remove participant\">'' @
               [0x2715] @ str ''</button></div>'')"
    by (simp add: participant_item_def a e)
  moreover have "dataset_pair (Some \<lparr>data_activity = Some a, data_email = Some e\<rparr>) = Inr (name, email)"
    by (simp add: dataset_pair_def decodeURIComponent_of_def
        encodeURIComponent_sound(1) [OF a] encodeURIComponent_sound(1) [OF e])
  moreover have "\<forall>u \<in> set (a @ e). unescaped (unat u) \<or> u = 37"
    using encodeURIComponent_sound(2) [OF a] encodeURIComponent_sound(2) [OF e] by auto
  ultimately show "\<exists>a e. encodeURIComponent name = Some a \<and> encodeURIComponent email = Some e \<and>
         participant_item name email =
           Inr (str ''<div class=\"participant-item\" data-activity=\"'' @ a @
                str ''\" data-email=\"'' @ e @ str ''\"><span>'' @ email @
                str ''</span><button class=\"delete-btn\" aria-label=\"Remove participant\">'' @
                [0x2715] @ str ''</button></div>'') \<and>
         (\<forall>u \<in> set (a @ e). unescaped (unat u) \<or> u = 37) \<and>
         dataset_pair (Some \<lparr>data_activity = Some a, data_email = Some e\<rparr>) = Inr (name, email)"
    using a e by blast
next
  assume ill: "\<not> (well_formed_string name \<and> well_formed_string email)"
  show "participant_item name email = Inl URIError"
  proof (cases "well_formed_string name")
    case False
    then have "encodeURIComponent name = None" by (rule encodeURIComponent_throws)
    then show ?thesis by (simp add: participant_item_def)
  next
    case True
    with ill have "\<not> well_formed_string email" by simp
    then have "encodeURIComponent email = None" by (rule encodeURIComponent_throws)
    then show ?thesis by (simp add: participant_item_def split: option.split)
  qed
qed

theorem removal_control_roundtrip_witness:
  "well_formed_string (str ''Chess & Go '' @ [0x265E, 0xD83D, 0xDE00]) \<and>
   well_formed_string (0xE9 # str '' a+b@x.com'') \<and>
   (\<exists>a e. encodeURIComponent (str ''Chess & Go '' @ [0x265E, 0xD83D, 0xDE00]) = Some a \<and>
      encodeURIComponent (0xE9 # str '' a+b@x.com'') = Some e \<and>
      dataset_pair (Some \<lparr>data_activity = Some a, data_email = Some e\<rparr>) =
        Inr (str ''Chess & Go '' @ [0x265E, 0xD83D, 0xDE00], 0xE9 # str '' a+b@x.com'')) \<and>
   \<not> well_formed_string [0x61, 0xD800] \<and>
   participant_item (str ''Chess & Go '' @ [0x265E, 0xD83D, 0xDE00]) [0x61, 0xD800] = Inl URIError"
proof -
  have n: "well_formed_string (str ''Chess & Go '' @ [0x265E, 0xD83D, 0xDE00])"
    by (simp add: well_formed_string_def str_def is_lead_def is_trail_def)
  have e: "well_formed_string (0xE9 # str '' a+b@x.com'')"
    by (simp add: well_formed_string_def str_def is_lead_def is_trail_def)
  have x: "\<not> well_formed_string [0x61, 0xD800]"
    by (simp add: well_formed_string_def is_lead_def is_trail_def)
  from removal_control_roundtrip [of "str ''Chess & Go '' @ [0x265E, 0xD83D, 0xDE00]"
      "0xE9 # str '' a+b@x.com''"]
    removal_control_roundtrip [of "str ''Chess & Go '' @ [0x265E, 0xD83D, 0xDE00]" "[0x61, 0xD800]"]
    n e x
  show ?thesis by blast
qed

text \<open>
  Claim C7 as stated speaks of every string. An email with an unpaired surrogate makes
  \<^verbatim>\<open>encodeURIComponent\<close> throw: no control is rendered and nothing is decoded.
\<close>

theorem unpaired_surrogate_counterexample:
  "participant_item (str ''Chess Club'') [0x61, 0xD800] = Inl URIError"
  by (simp add: participant_item_def codec_eval)

section \<open>The feedback message and its timer\<close>

lemmas page_eval = classList_remove_def classList_add_def message_hidden_def setTimeout_hide_def
  signupForm_reset_def fetchActivities_call_def signup_catch_def unregister_catch_def

lemmas json_eval = Get_def ToBoolean_def textContent_of_def signup_success_def signup_failure_def
  unregister_failure_def

lemma classList_fold_hide:
  "messageDiv_classList (fold (\<lambda>_. classList_add ''hidden'') ds s) =
     (if ds = [] \<or> ''hidden'' \<in> set (messageDiv_classList s) then messageDiv_classList s
      else messageDiv_classList s @ [''hidden''])"
  by (induction ds arbitrary: s) (auto simp: classList_add_def)

lemma message_hidden_advance:
  "message_hidden (advance t s) \<longleftrightarrow> message_hidden s \<or> (\<exists>d \<in> set (timers s). d \<le> t)"
  by (auto simp: advance_def message_hidden_def classList_fold_hide filter_empty_conv)

lemma signup_response_timed:
  assumes "if ok st then signup_success result = Inr text else signup_failure result = Inr text"
  shows "\<not> message_hidden (signup_response (Answered st (Some result)) s)"
    and "timers (signup_response (Answered st (Some result)) s) = timers s @ [now s + 5000]"
  using assms by (simp_all add: signup_response_def page_eval split: if_splits)

lemma unregister_response_timed:
  "ok st \<Longrightarrow> \<not> message_hidden (unregister_response activity email (Answered st body) s)"
  "ok st \<Longrightarrow> timers (unregister_response activity email (Answered st body) s) = timers s @ [now s + 5000]"
  by (simp_all add: unregister_response_def page_eval)

lemma timed_messages_hide:
  "(if ok st then signup_success result = Inr text else signup_failure result = Inr text) \<Longrightarrow>
   message_hidden (advance t (signup_response (Answered st (Some result)) s)) \<longleftrightarrow>
     now s + 5000 \<le> t \<or> (\<exists>d \<in> set (timers s). d \<le> t)"
  "ok st \<Longrightarrow>
   message_hidden (advance t (unregister_response activity email (Answered st body) s)) \<longleftrightarrow>
     now s + 5000 \<le> t \<or> (\<exists>d \<in> set (timers s). d \<le> t)"
  by (auto simp: message_hidden_advance signup_response_timed unregister_response_timed)

lemma untimed_messages:
  "timers (signup_response Rejected s) = timers s"
  "timers (signup_response (Answered st None) s) = timers s"
  "timers (unregister_response activity email Rejected s) = timers s"
  "\<not> ok st \<Longrightarrow> timers (unregister_response activity email (Answered st body) s) = timers s"
  by (simp_all add: signup_response_def unregister_response_def page_eval
      split: option.splits sum.splits)

text \<open>
  Claim C1: every feedback message is hidden 5000 ms after it is set. Evaluated on a page
  without pending timers: the message of an unregister attempt answered with status 404,
  and the messages of the two transport failures, are still shown when the clock has
  advanced by 5000 ms, since these paths schedule no timer.
\<close>

theorem untimed_messages_stay:
  "\<not> message_hidden (advance 5000
      (unregister_response (str ''Chess Club'') (str ''a@x.com'') (Answered 404 (Some not_found)) page0)) \<and>
   \<not> message_hidden (advance 5000
      (unregister_response (str ''Chess Club'') (str ''a@x.com'') Rejected page0)) \<and>
   \<not> message_hidden (advance 5000 (signup_response Rejected page0))"
  by (simp add: message_hidden_advance untimed_messages ok_def)
    (simp add: signup_response_def unregister_response_def page_eval json_eval ok_def page0_def
      not_found_def)

section \<open>What the two handlers display\<close>

lemmas handler_eval = signup_response_def unregister_response_def page_eval ok_def

text \<open>
  Claim C2, as far as it holds. When the request itself is rejected, the signup handler
  displays the fixed text "Failed to sign up. Please try again." and the click handler of
  a removal control displays "Failed to unregister. Please try again."
\<close>

theorem transport_failure_messages:
  "messageDiv_textContent (signup_response Rejected s) = str ''Failed to sign up. Please try again.'' \<and>
   messageDiv_textContent (unregister_response activity email Rejected s) =
     str ''Failed to unregister. Please try again.''"
  by (simp add: handler_eval)

text \<open>
  Claim C2 as stated gives the signup text as "Failed to sign up"; the text displayed is
  longer.
\<close>

theorem signup_transport_failure_counterexample:
  "messageDiv_textContent (signup_response Rejected page0) \<noteq> str ''Failed to sign up''"
  by (simp add: handler_eval str_def)

lemma Get_defined: "result \<noteq> JNull \<Longrightarrow> \<exists>x. Get name result = Inr x"
  by (cases result) (simp_all add: Get_def)

text \<open>
  Claim C4, as far as it holds. For a signup answer whose body parses as JSON to a value
  other than \<^verbatim>\<open>null\<close>, reading a member of the body gives a value or \<^verbatim>\<open>undefined\<close>. With a
  status in the success range the text displayed is the \<^verbatim>\<open>message\<close> of the server, as it
  is when it is a string and converted to a string otherwise, with the classes of a
  success. With any other status it is the \<^verbatim>\<open>detail\<close> of the server when that counts as
  true, as a non-empty string does, again as it is or converted, and "An error occurred"
  when it does not, with the classes of an error. The conversion is supposed not to
  throw.
\<close>

theorem signup_answer_message:
  "(result \<noteq> JNull \<longrightarrow> (\<exists>x. Get ''message'' result = Inr x) \<and> (\<exists>x. Get ''detail'' result = Inr x)) \<and>
   (ok st \<longrightarrow> Get ''message'' result = Inr (Some (JString m)) \<longrightarrow>
      messageDiv_textContent (signup_response (Answered st (Some result)) s) = m \<and>
      messageDiv_classList (signup_response (Answered st (Some result)) s) = [''message'', ''success'']) \<and>
   (ok st \<longrightarrow> Get ''message'' result = Inr x \<longrightarrow> textContent_of x = Inr text \<longrightarrow>
      messageDiv_textContent (signup_response (Answered st (Some result)) s) = text \<and>
      messageDiv_classList (signup_response (Answered st (Some result)) s) = [''message'', ''success'']) \<and>
   (\<not> ok st \<longrightarrow> Get ''detail'' result = Inr (Some (JString d)) \<longrightarrow> d \<noteq> [] \<longrightarrow>
      messageDiv_textContent (signup_response (Answered st (Some result)) s) = d \<and>
      messageDiv_classList (signup_response (Answered st (Some result)) s) = [''message'', ''error'']) \<and>
   (\<not> ok st \<longrightarrow> Get ''detail'' result = Inr x \<longrightarrow> ToBoolean x \<longrightarrow> textContent_of x = Inr text \<longrightarrow>
      messageDiv_textContent (signup_response (Answered st (Some result)) s) = text \<and>
      messageDiv_classList (signup_response (Answered st (Some result)) s) = [''message'', ''error'']) \<and>
   (\<not> ok st \<longrightarrow> Get ''detail'' result = Inr x \<longrightarrow> \<not> ToBoolean x \<longrightarrow>
      messageDiv_textContent (signup_response (Answered st (Some result)) s) = str ''An error occurred'' \<and>
      messageDiv_classList (signup_response (Answered st (Some result)) s) = [''message'', ''error''])"
proof -
  have "ToBoolean (Some (JString d))" if "d \<noteq> []" for d
    using that by (simp add: ToBoolean_def)
  moreover have "textContent_of (Some (JString d)) = Inr d" for d
    by (simp add: textContent_of_def)
  ultimately show ?thesis
    using Get_defined [of result]
    by (auto simp: handler_eval signup_success_def signup_failure_def)
qed

theorem signup_answer_message_witness:
  "ok 200 \<and> Get ''message'' signed_up = Inr (Some (JString (str ''Signed up a@x.com for Chess Club''))) \<and>
   messageDiv_textContent (signup_response (Answered 200 (Some signed_up)) page0) =
     str ''Signed up a@x.com for Chess Club'' \<and>
   messageDiv_classList (signup_response (Answered 200 (Some signed_up)) page0) = [''message'', ''success''] \<and>
   \<not> ok 400 \<and> Get ''detail'' already_signed_up = Inr (Some (JString (str ''Already signed up''))) \<and>
   str ''Already signed up'' \<noteq> [] \<and>
   messageDiv_textContent (signup_response (Answered 400 (Some already_signed_up)) page0) =
     str ''Already signed up'' \<and>
   messageDiv_classList (signup_response (Answered 400 (Some already_signed_up)) page0) = [''message'', ''error''] \<and>
   Get ''detail'' signed_up = Inr None \<and> \<not> ToBoolean None \<and>
   messageDiv_textContent (signup_response (Answered 400 (Some signed_up)) page0) = str ''An error occurred'' \<and>
   \<not> ok 422 \<and>
   messageDiv_textContent (signup_response (Answered 422 (Some validation_error)) page0) =
     str ''[object Object]''"
proof -
  have a: "ok 200" "\<not> ok 400" "\<not> ok 422" by (simp_all add: ok_def)
  have b: "Get ''message'' signed_up = Inr (Some (JString (str ''Signed up a@x.com for Chess Club'')))"
    "Get ''detail'' signed_up = Inr None"
    by (simp_all add: signed_up_def Get_def str_def)
  have c: "Get ''detail'' already_signed_up = Inr (Some (JString (str ''Already signed up'')))"
    "str ''Already signed up'' \<noteq> []" "\<not> ToBoolean None"
    by (simp_all add: already_signed_up_def Get_def str_def ToBoolean_def)
  have d: "Get ''detail'' validation_error =
      Inr (Some (JArray [JObject [(str ''msg'', JString (str ''field required''))]]))"
    "ToBoolean (Some (JArray [JObject [(str ''msg'', JString (str ''field required''))]]))"
    "textContent_of (Some (JArray [JObject [(str ''msg'', JString (str ''field required''))]])) =
       Inr (str ''[object Object]'')"
    by (simp_all add: validation_error_def Get_def ToBoolean_def textContent_of_def str_def)
  show ?thesis
    using a b c
      signup_answer_message [of signed_up 200 "str ''Signed up a@x.com for Chess Club''" page0
        None "[]" "[]"]
      signup_answer_message [of already_signed_up 400 "[]" page0 None "[]" "str ''Already signed up''"]
      signup_answer_message [of signed_up 400 "[]" page0 None "[]" "[]"]
      signup_answer_message [of validation_error 422 "[]" page0
        "Some (JArray [JObject [(str ''msg'', JString (str ''field required''))]])"
        "str ''[object Object]''" "[]", simplified d a]
    by simp
qed

text \<open>
  Claim C4 as stated covers every signup attempt that receives an answer. An answer
  with status 400 whose body is not JSON has no detail, and yet the text displayed is
  not "An error occurred".
\<close>

theorem signup_failure_without_json_counterexample:
  "\<not> ok 400 \<and>
   messageDiv_textContent (signup_response (Answered 400 None) page0) =
     str ''Failed to sign up. Please try again.'' \<and>
   messageDiv_textContent (signup_response (Answered 400 None) page0) \<noteq> str ''An error occurred''"
  by (simp add: handler_eval str_def)

text \<open>
  Claim C5, as far as it holds. For an unregister answer with a status in the success
  range the text displayed is "Unregistered ", the email, " from " and the activity name,
  whatever the body. With any other status and a body that parses as JSON to a value
  other than \<^verbatim>\<open>null\<close> it is the \<^verbatim>\<open>detail\<close> of the server when that counts as true, as a
  non-empty string does, as it is when it is a string and converted to a string
  otherwise, and "Failed to unregister" when it does not; the conversion is supposed not
  to throw. With any other status and a body that is \<^verbatim>\<open>null\<close> or not JSON it is "Failed
  to unregister. Please try again."
\<close>

theorem unregister_answer_message:
  "(ok st \<longrightarrow>
      messageDiv_textContent (unregister_response activity email (Answered st body) s) =
        str ''Unregistered '' @ email @ str '' from '' @ activity \<and>
      messageDiv_classList (unregister_response activity email (Answered st body) s) =
        [''message'', ''success'']) \<and>
   (result \<noteq> JNull \<longrightarrow> (\<exists>x. Get ''detail'' result = Inr x)) \<and>
   (\<not> ok st \<longrightarrow> Get ''detail'' result = Inr (Some (JString d)) \<longrightarrow> d \<noteq> [] \<longrightarrow>
      messageDiv_textContent (unregister_response activity email (Answered st (Some result)) s) = d) \<and>
   (\<not> ok st \<longrightarrow> Get ''detail'' result = Inr x \<longrightarrow> ToBoolean x \<longrightarrow> textContent_of x = Inr text \<longrightarrow>
      messageDiv_textContent (unregister_response activity email (Answered st (Some result)) s) = text) \<and>
   (\<not> ok st \<longrightarrow> Get ''detail'' result = Inr x \<longrightarrow> \<not> ToBoolean x \<longrightarrow>
      messageDiv_textContent (unregister_response activity email (Answered st (Some result)) s) =
        str ''Failed to unregister'') \<and>
   (\<not> ok st \<longrightarrow>
      messageDiv_textContent (unregister_response activity email (Answered st None) s) =
        str ''Failed to unregister. Please try again.'' \<and>
      messageDiv_textContent (unregister_response activity email (Answered st (Some JNull)) s) =
        str ''Failed to unregister. Please try again.'')"
proof -
  have "ToBoolean (Some (JString d))" if "d \<noteq> []" for d
    using that by (simp add: ToBoolean_def)
  moreover have "textContent_of (Some (JString d)) = Inr d" for d
    by (simp add: textContent_of_def)
  moreover have "Get ''detail'' JNull = Inl TypeError" by (simp add: Get_def)
  ultimately show ?thesis
    using Get_defined [of result]
    by (auto simp: handler_eval unregister_failure_def)
qed

theorem unregister_answer_message_witness:
  "ok 200 \<and>
   messageDiv_textContent
     (unregister_response (str ''Chess Club'') (str ''a@x.com'') (Answered 200 (Some signed_up)) page0) =
     str ''Unregistered a@x.com from Chess Club'' \<and>
   \<not> ok 404 \<and> Get ''detail'' not_found = Inr (Some (JString (str ''Participant not found''))) \<and>
   str ''Participant not found'' \<noteq> [] \<and>
   messageDiv_textContent
     (unregister_response (str ''Chess Club'') (str ''a@x.com'') (Answered 404 (Some not_found)) page0) =
     str ''Participant not found'' \<and>
   Get ''detail'' signed_up = Inr None \<and> \<not> ToBoolean None \<and>
   messageDiv_textContent
     (unregister_response (str ''Chess Club'') (str ''a@x.com'') (Answered 404 (Some signed_up)) page0) =
     str ''Failed to unregister'' \<and>
   messageDiv_textContent
     (unregister_response (str ''Chess Club'') (str ''a@x.com'') (Answered 404 (Some JNull)) page0) =
     str ''Failed to unregister. Please try again.''"
proof -
  have a: "ok 200" "\<not> ok 404" by (simp_all add: ok_def)
  have b: "Get ''detail'' not_found = Inr (Some (JString (str ''Participant not found'')))"
    "str ''Participant not found'' \<noteq> []" "Get ''detail'' signed_up = Inr None"
    "\<not> ToBoolean None"
    by (simp_all add: not_found_def signed_up_def Get_def ToBoolean_def str_def)
  show ?thesis
    using a b
      unregister_answer_message [of 200 "str ''Chess Club''" "str ''a@x.com''" "Some signed_up" page0
        signed_up "[]" None "[]"]
      unregister_answer_message [of 404 "str ''Chess Club''" "str ''a@x.com''" None page0
        not_found "str ''Participant not found''" None "[]"]
      unregister_answer_message [of 404 "str ''Chess Club''" "str ''a@x.com''" None page0
        signed_up "[]" None "[]"]
    by (simp add: str_def)
qed

text \<open>
  Claim C5 as stated covers every failure answer. With status 500 and a body that is not
  JSON the text displayed is not the fallback "Failed to unregister".
\<close>

theorem unregister_failure_without_json_counterexample:
  "\<not> ok 500 \<and>
   messageDiv_textContent
     (unregister_response (str ''Chess Club'') (str ''a@x.com'') (Answered 500 None) page0) =
     str ''Failed to unregister. Please try again.'' \<and>
   messageDiv_textContent
     (unregister_response (str ''Chess Club'') (str ''a@x.com'') (Answered 500 None) page0) \<noteq>
     str ''Failed to unregister''"
  by (simp add: handler_eval str_def)

text \<open>
  Claim C9: a signup answer with a failure status and a body that is not valid JSON is
  handled exactly as a rejected request: the text displayed is the one of the transport
  failure, not the fallback "An error occurred".
\<close>

theorem signup_failure_body_not_json:
  "\<not> ok st \<Longrightarrow>
   signup_response (Answered st None) s = signup_response Rejected s \<and>
   messageDiv_textContent (signup_response (Answered st None) s) =
     str ''Failed to sign up. Please try again.'' \<and>
   messageDiv_textContent (signup_response (Answered st None) s) \<noteq> str ''An error occurred''"
  by (simp add: handler_eval str_def)

theorem signup_failure_body_not_json_witness:
  "\<not> ok 502 \<and>
   signup_response (Answered 502 None) page0 = signup_response Rejected page0 \<and>
   messageDiv_textContent (signup_response (Answered 502 None) page0) =
     str ''Failed to sign up. Please try again.'' \<and>
   messageDiv_textContent (signup_response (Answered 502 None) page0) \<noteq> str ''An error occurred''"
proof -
  have a: "\<not> ok 502" by (simp add: ok_def)
  from signup_failure_body_not_json [OF a, of page0] a show ?thesis by blast
qed

lemma signup_success_cases:
  "signup_success JNull = Inl TypeError"
  "map_of properties (str ''message'') = Some (JString m) \<Longrightarrow>
     signup_success (JObject properties) = Inr m"
  "map_of properties (str ''message'') = None \<Longrightarrow> signup_success (JObject properties) = Inr []"
  by (simp_all add: json_eval)

text \<open>
  Claim C3, as far as it holds. An unregister answer triggers a new request for the
  activities exactly when its status is in the success range. A signup answer triggers
  one, and resets the form, exactly when its status is in the success range and line 114
  has displayed the message of the server: the body parses as JSON, reading its
  \<^verbatim>\<open>message\<close> does not throw, as it does for \<^verbatim>\<open>null\<close>, and nor does converting it to a string;
  otherwise the requests and the two fields of the form stay as they were. The message
  of an object is displayed when it is a string and when it is missing.
\<close>

theorem reload_on_success:
  "requests (signup_response (Answered st body) s) =
     (if ok st \<and> (\<exists>result x text. body = Some result \<and> Get ''message'' result = Inr x \<and>
                     textContent_of x = Inr text)
      then requests s @ [GET (str ''/activities'')] else requests s) \<and>
   email_value (signup_response (Answered st body) s) =
     (if ok st \<and> (\<exists>result x text. body = Some result \<and> Get ''message'' result = Inr x \<and>
                     textContent_of x = Inr text)
      then email_default s else email_value s) \<and>
   activity_value (signup_response (Answered st body) s) =
     (if ok st \<and> (\<exists>result x text. body = Some result \<and> Get ''message'' result = Inr x \<and>
                     textContent_of x = Inr text)
      then (case activitySelect s of [] \<Rightarrow> [] | opt # _ \<Rightarrow> option_value opt)
      else activity_value s) \<and>
   requests (unregister_response activity email (Answered st body') s) =
     (if ok st then requests s @ [GET (str ''/activities'')] else requests s) \<and>
   (\<forall>x. Get ''message'' JNull \<noteq> Inr x) \<and>
   (\<forall>properties m. map_of properties (str ''message'') = Some (JString m) \<longrightarrow>
      Get ''message'' (JObject properties) = Inr (Some (JString m)) \<and>
      textContent_of (Some (JString m)) = Inr m) \<and>
   (\<forall>properties. map_of properties (str ''message'') = None \<longrightarrow>
      Get ''message'' (JObject properties) = Inr None \<and> textContent_of None = Inr [])"
proof -
  have shown: "(\<exists>result x text. body = Some result \<and> Get ''message'' result = Inr x \<and>
            textContent_of x = Inr text) \<longleftrightarrow>
         (\<exists>result text. body = Some result \<and> signup_success result = Inr text)"
  proof -
    have "(\<exists>x text. Get ''message'' result = Inr x \<and> textContent_of x = Inr text) \<longleftrightarrow>
          (\<exists>text. signup_success result = Inr text)" for result
      by (cases "Get ''message'' result") (simp_all add: signup_success_def)
    then show ?thesis by blast
  qed
  have "requests (signup_response (Answered st body) s) =
     (if ok st \<and> (\<exists>result text. body = Some result \<and> signup_success result = Inr text)
      then requests s @ [GET (str ''/activities'')] else requests s)"
    "email_value (signup_response (Answered st body) s) =
     (if ok st \<and> (\<exists>result text. body = Some result \<and> signup_success result = Inr text)
      then email_default s else email_value s)"
    "activity_value (signup_response (Answered st body) s) =
     (if ok st \<and> (\<exists>result text. body = Some result \<and> signup_success result = Inr text)
      then (case activitySelect s of [] \<Rightarrow> [] | opt # _ \<Rightarrow> option_value opt)
      else activity_value s)"
    by (simp_all add: signup_response_def page_eval split: option.splits sum.splits)
  moreover have "requests (unregister_response activity email (Answered st body') s) =
     (if ok st then requests s @ [GET (str ''/activities'')] else requests s)"
    by (simp add: unregister_response_def page_eval split: option.splits sum.splits)
  moreover have "\<forall>x. Get ''message'' JNull \<noteq> Inr x" by (simp add: Get_def)
  moreover have "\<forall>properties m. map_of properties (str ''message'') = Some (JString m) \<longrightarrow>
      Get ''message'' (JObject properties) = Inr (Some (JString m)) \<and>
      textContent_of (Some (JString m)) = Inr m"
    by (simp add: Get_def textContent_of_def)
  moreover have "\<forall>properties. map_of properties (str ''message'') = None \<longrightarrow>
      Get ''message'' (JObject properties) = Inr None \<and> textContent_of None = Inr []"
    by (simp add: Get_def textContent_of_def)
  ultimately show ?thesis unfolding shown by blast
qed

theorem reload_on_success_witness:
  "requests (signup_response (Answered 200 (Some signed_up)) page0) = [GET (str ''/activities'')] \<and>
   email_value (signup_response (Answered 200 (Some signed_up)) page0) = [] \<and>
   activity_value (signup_response (Answered 200 (Some signed_up)) page0) = [] \<and>
   requests (signup_response (Answered 400 (Some already_signed_up)) page0) = [] \<and>
   email_value (signup_response (Answered 400 (Some already_signed_up)) page0) = str ''a@x.com'' \<and>
   activity_value (signup_response (Answered 400 (Some already_signed_up)) page0) = str ''Chess Club'' \<and>
   requests (signup_response (Answered 200 (Some JNull)) page0) = [] \<and>
   email_value (signup_response (Answered 200 (Some JNull)) page0) = str ''a@x.com'' \<and>
   requests (unregister_response (str ''Chess Club'') (str ''a@x.com'') (Answered 200 None) page0) =
     [GET (str ''/activities'')] \<and>
   requests (unregister_response (str ''Chess Club'') (str ''a@x.com'')
     (Answered 404 (Some not_found)) page0) = []"
proof -
  have p: "requests page0 = []" "email_value page0 = str ''a@x.com''"
    "activity_value page0 = str ''Chess Club''" "activitySelect page0 = [sentinel]"
    "email_default page0 = []"
    by (simp_all add: page0_def)
  have a: "ok 200" "\<not> ok 400" "\<not> ok 404" by (simp_all add: ok_def)
  have shown: "\<exists>result x text. Some signed_up = Some result \<and> Get ''message'' result = Inr x \<and>
      textContent_of x = Inr text"
    by (simp add: signed_up_def Get_def textContent_of_def)
  have thrown: "\<not> (\<exists>result x text. Some JNull = Some result \<and> Get ''message'' result = Inr x \<and>
      textContent_of x = Inr text)"
    by (simp add: Get_def)
  have 1: "requests (signup_response (Answered 200 (Some signed_up)) page0) = [GET (str ''/activities'')]"
    "email_value (signup_response (Answered 200 (Some signed_up)) page0) = []"
    "activity_value (signup_response (Answered 200 (Some signed_up)) page0) = []"
    "requests (unregister_response (str ''Chess Club'') (str ''a@x.com'') (Answered 200 None) page0) =
       [GET (str ''/activities'')]"
    using reload_on_success [of 200 "Some signed_up" page0 "str ''Chess Club''" "str ''a@x.com''" None]
      shown by (simp_all add: p a sentinel_def)
  have 2: "requests (signup_response (Answered 400 (Some already_signed_up)) page0) = []"
    "email_value (signup_response (Answered 400 (Some already_signed_up)) page0) = str ''a@x.com''"
    "activity_value (signup_response (Answered 400 (Some already_signed_up)) page0) = str ''Chess Club''"
    using reload_on_success [of 400 "Some already_signed_up" page0 "str ''Chess Club''"
        "str ''a@x.com''" None]
    by (simp_all add: p a)
  have 3: "requests (signup_response (Answered 200 (Some JNull)) page0) = []"
    "email_value (signup_response (Answered 200 (Some JNull)) page0) = str ''a@x.com''"
    using reload_on_success [of 200 "Some JNull" page0 "str ''Chess Club''" "str ''a@x.com''" None]
      thrown by (simp_all add: p a)
  have 4: "requests (unregister_response (str ''Chess Club'') (str ''a@x.com'')
      (Answered 404 (Some not_found)) page0) = []"
    using reload_on_success [of 404 None page0 "str ''Chess Club''" "str ''a@x.com''" "Some not_found"]
    by (simp add: p a)
  from 1 2 3 4 show ?thesis by simp
qed

text \<open>
  Claim C3 as stated ties the reload and the reset of the form to the status alone. A
  signup answer with status 204 and no JSON body triggers no reload and leaves the form
  as it was.
\<close>

theorem success_status_without_json_counterexample:
  "ok 204 \<and> requests (signup_response (Answered 204 None) page0) = requests page0 \<and>
   email_value (signup_response (Answered 204 None) page0) = str ''a@x.com''"
  by (simp add: handler_eval page0_def)

section \<open>Rendering the activities\<close>

lemmas render_eval = fetchActivities_resume_def fetchActivities_try_def activityCard_def
  participantsSection_def participant_item_def decimal_def indent_def

lemma forEach_activity_appends:
  "forEach_activity acts s = Inr s' \<Longrightarrow>
   \<exists>cards. activitiesList s' = activitiesList s @ map Activity_card cards \<and>
     list_all2 (\<lambda>entry html. activityCard (fst entry) (snd entry) = Inr html) acts cards \<and>
     activitySelect s' = activitySelect s @ map option_for acts"
proof (induction acts arbitrary: s)
  case Nil
  then show ?case by simp
next
  case (Cons entry acts)
  obtain name d where entry: "entry = (name, d)" by (cases entry)
  from Cons.prems obtain c where c: "activityCard name d = Inr c"
    and rest: "forEach_activity acts
      (s\<lparr>activitiesList := activitiesList s @ [Activity_card c],
         activitySelect := activitySelect s @ [\<lparr>option_value = name, option_text = name\<rparr>]\<rparr>) = Inr s'"
    by (auto simp: entry split: sum.splits)
  from Cons.IH [OF rest] obtain cards where
    "activitiesList s' = (activitiesList s @ [Activity_card c]) @ map Activity_card cards"
    "list_all2 (\<lambda>entry html. activityCard (fst entry) (snd entry) = Inr html) acts cards"
    "activitySelect s' =
       (activitySelect s @ [\<lparr>option_value = name, option_text = name\<rparr>]) @ map option_for acts"
    by auto
  then have "activitiesList s' = activitiesList s @ map Activity_card (c # cards) \<and>
     list_all2 (\<lambda>entry html. activityCard (fst entry) (snd entry) = Inr html) (entry # acts) (c # cards) \<and>
     activitySelect s' = activitySelect s @ map option_for (entry # acts)"
    using c by (simp add: entry option_for_def)
  then show ?case by blast
qed

lemma participant_items_length:
  "participant_items name ps = Inr items \<Longrightarrow> length items = length ps"
  by (induction ps arbitrary: items) (auto split: sum.splits)

lemma chess_club_rendered:
  "\<exists>s'. fetchActivities_try (Answered 200 (Some chess_club)) page0 = Inr s'"
  by (simp add: render_eval chess_club_def codec_eval)

lemma scenario_1_markup:
  "activitiesList (fetchActivities_resume (Answered 200 (Some chess_club)) page0) =
     [Activity_card
       (10 # str ''          <h4>Chess Club</h4>'' @
        10 # str ''          <p>Learn strategies</p>'' @
        10 # str ''          <p><strong>Schedule:</strong> Fridays</p>'' @
        10 # str ''          <p><strong>Availability:</strong> 9 spots left</p>'' @
        10 # str ''          <div class=\"participants\"><strong>Participants:</strong><div class=\"participants-list\"><div class=\"participant-item\" data-activity=\"Chess%20Club\" data-email=\"a%40x.com\"><span>a@x.com</span><button class=\"delete-btn\" aria-label=\"Remove participant\">'' @
        [0x2715] @ str ''</button></div></div></div>'' @
        10 # str ''        '')]"
  by (simp add: render_eval chess_club_def codec_eval page0_def)

text \<open>
  Claim C6: every card displays \<open>max_participants\<close> minus the number of participants as
  the places left and has exactly one participant row per element of \<open>participants\<close>.
  Evaluated on a collection whose one participant holds markup: the template puts the
  participant unescaped between the tags of the \<^verbatim>\<open>span\<close>, so the markup assigned to
  \<^verbatim>\<open>innerHTML\<close> holds a second \<^verbatim>\<open>div\<close> of class \<^verbatim>\<open>participant-item\<close> inside the row of the
  template, where the data attributes of that row hold the same participant
  percent-encoded.
\<close>

theorem markup_in_participant_row:
  "activitiesList (fetchActivities_resume (Answered 200 (Some markup_club)) page0) =
     [Activity_card
       (10 # str ''          <h4>Chess Club</h4>'' @
        10 # str ''          <p>Learn strategies</p>'' @
        10 # str ''          <p><strong>Schedule:</strong> Fridays</p>'' @
        10 # str ''          <p><strong>Availability:</strong> 9 spots left</p>'' @
        10 # str ''          <div class=\"participants\"><strong>Participants:</strong><div class=\"participants-list\"><div class=\"participant-item\" data-activity=\"Chess%20Club\" data-email=\"%3Cdiv%20class%3D%22participant-item%22%3Ex%3C%2Fdiv%3E\"><span><div class=\"participant-item\">x</div></span><button class=\"delete-btn\" aria-label=\"Remove participant\">'' @
        [0x2715] @ str ''</button></div></div></div>'' @
        10 # str ''        '')]"
  by (simp add: render_eval markup_club_def codec_eval page0_def)

lemma failed_fetch:
  assumes "r = Rejected \<or> r = Answered st None"
  shows "fetchActivities_try r s = Inl (if r = Rejected then NetworkError else SyntaxError, s)"
    and "fetchActivities_resume r s =
           s\<lparr>activitiesList :=
               [Markup (str ''<p>Failed to load activities. Please try again later.</p>'')]\<rparr>"
  using assms by (auto simp: fetchActivities_try_def fetchActivities_resume_def)

text \<open>
  Claim C8: when the first request for the activities is rejected, or answered with a
  body that is not JSON, the content of the list area is replaced by the markup of the
  failure notice, the select, which held the sentinel only, still holds the sentinel
  only, and \<^verbatim>\<open>fetchActivities\<close> ends normally: the page it leaves differs from the page it
  found in the list area only.
\<close>

theorem initial_fetch_failure:
  assumes "r = Rejected \<or> r = Answered st None"
    and "activitySelect s = [\<lparr>option_value = [], option_text = str ''-- Select an activity --''\<rparr>]"
  shows "activitiesList (fetchActivities_resume r s) =
           [Markup (str ''<p>Failed to load activities. Please try again later.</p>'')] \<and>
         activitySelect (fetchActivities_resume r s) =
           [\<lparr>option_value = [], option_text = str ''-- Select an activity --''\<rparr>] \<and>
         fetchActivities_resume r s =
           s\<lparr>activitiesList :=
               [Markup (str ''<p>Failed to load activities. Please try again later.</p>'')]\<rparr>"
  using assms(2) by (simp add: failed_fetch(2) [OF assms(1)])

theorem initial_fetch_failure_witness:
  "activitySelect page0 = [\<lparr>option_value = [], option_text = str ''-- Select an activity --''\<rparr>] \<and>
   activitiesList page0 = [Markup (str ''<p>Loading activities...</p>'')] \<and>
   activitiesList (fetchActivities_resume Rejected page0) =
     [Markup (str ''<p>Failed to load activities. Please try again later.</p>'')] \<and>
   activitySelect (fetchActivities_resume Rejected page0) =
     [\<lparr>option_value = [], option_text = str ''-- Select an activity --''\<rparr>] \<and>
   activitiesList (fetchActivities_resume (Answered 200 None) page0) =
     [Markup (str ''<p>Failed to load activities. Please try again later.</p>'')] \<and>
   activitySelect (fetchActivities_resume (Answered 200 None) page0) =
     [\<lparr>option_value = [], option_text = str ''-- Select an activity --''\<rparr>]"
proof -
  have p: "activitySelect page0 = [\<lparr>option_value = [], option_text = str ''-- Select an activity --''\<rparr>]"
    "activitiesList page0 = [Markup (str ''<p>Loading activities...</p>'')]"
    by (simp_all add: page0_def sentinel_def)
  from initial_fetch_failure [of Rejected 200 page0, OF _ p(1)]
    initial_fetch_failure [of "Answered 200 None" 200 page0, OF _ p(1)] p
  show ?thesis by simp
qed

text \<open>
  Claim C10: sending the request changes neither the list area nor the select. A request
  for the activities that is rejected, or answered with a body that is not JSON, reaches
  the \<^verbatim>\<open>catch\<close> block with the page untouched; afterwards the select is as before and
  the list area holds the failure notice. So when the page before was the outcome of a
  successful rendering, the select still holds the sentinel and one option for each
  activity of that snapshot.
\<close>

theorem failed_refresh_keeps_options:
  assumes "r = Rejected \<or> r = Answered st None"
  shows "activitiesList (fetchActivities_call s) = activitiesList s \<and>
         activitySelect (fetchActivities_call s) = activitySelect s \<and>
         fetchActivities_try r s = Inl (if r = Rejected then NetworkError else SyntaxError, s) \<and>
         activitySelect (fetchActivities_resume r s) = activitySelect s \<and>
         activitiesList (fetchActivities_resume r s) =
           [Markup (str ''<p>Failed to load activities. Please try again later.</p>'')] \<and>
         (\<forall>st' acts s0.
            fetchActivities_try (Answered st' (Some acts)) s0 = Inr s \<longrightarrow>
            activitySelect (fetchActivities_resume r s) = sentinel # map option_for acts)"
proof -
  have "activitySelect s = sentinel # map option_for acts"
    if "fetchActivities_try (Answered st' (Some acts)) s0 = Inr s" for st' acts s0
  proof -
    from that have "forEach_activity acts
      (s0\<lparr>activitiesList := [], activitySelect := [sentinel], activity_value := []\<rparr>) = Inr s"
      by (simp add: fetchActivities_try_def)
    from forEach_activity_appends [OF this] show ?thesis by auto
  qed
  then show ?thesis
    using failed_fetch(1) [OF assms, of s]
    by (simp add: failed_fetch(2) [OF assms] fetchActivities_call_def)
qed

theorem failed_refresh_keeps_options_witness:
  "\<exists>s. fetchActivities_try (Answered 200 (Some chess_club)) page0 = Inr s \<and>
     activitySelect (fetchActivities_resume Rejected s) =
       [sentinel, \<lparr>option_value = str ''Chess Club'', option_text = str ''Chess Club''\<rparr>] \<and>
     activitiesList (fetchActivities_resume Rejected s) =
       [Markup (str ''<p>Failed to load activities. Please try again later.</p>'')]"
proof -
  from chess_club_rendered obtain s where
    s: "fetchActivities_try (Answered 200 (Some chess_club)) page0 = Inr s" ..
  from failed_refresh_keeps_options [of Rejected 0 s] s
  have "activitySelect (fetchActivities_resume Rejected s) = sentinel # map option_for chess_club"
    and "activitiesList (fetchActivities_resume Rejected s) =
       [Markup (str ''<p>Failed to load activities. Please try again later.</p>'')]"
    by blast+
  then show ?thesis using s by (auto simp: chess_club_def option_for_def)
qed

end
